theory Spec2Isabelle
  imports Complex_Main
begin

section \<open>Data model of the pair trading strategy\<close>

text \<open>
  The strategy of \<^verbatim>\<open>strategies/pair_trading.py\<close> is embedded function by function.
  The arithmetic the strategy does itself is idealised over the real numbers; the
  statistics it asks of numpy are not computed by the model but taken as numpy answers
  (see \<open>env\<close>). Where a float would be non-finite (nan or inf) without an exception
  being raised, the model stops with the outcome \<open>NonFinite\<close>: that outcome marks a run
  that has left the idealisation, it is neither a normal return nor an exception.
\<close>

type_synonym instrument_id = string
type_synonym bartype = string
type_synonym position = string

datatype order_side = BUY | SELL

datatype py_error =
  KeyError | IndexError | AttributeError | ZeroDivisionError | ValueError | LinAlgError

text \<open>A function of the strategy returns, raises (with the object state it leaves), or
  reaches a non-finite float.\<close>

datatype 'a outcome = Returns 'a | Raises py_error 'a | NonFinite

text \<open>Of a bar only \<^verbatim>\<open>bar.close.as_double()\<close> is read.\<close>

record bar =
  close :: real

record config =
  instrument_id_1 :: instrument_id
  instrument_id_2 :: instrument_id
  bar_type :: "(instrument_id \<times> bartype) list"
  formation_window :: int
  zscore_threshold :: real
  exit_zscore_threshold :: real
  capital_to_risk_ratio :: real

text \<open>
  The cache is an external collaborator, taken as it answers the calls the strategy makes:
  \<^verbatim>\<open>cache.bars(bar_type)\<close>, \<^verbatim>\<open>cache.bar(bar_type)\<close> (the latest bar or None),
  \<^verbatim>\<open>cache.positions_open()\<close> and \<^verbatim>\<open>cache.accounts()\<close> (each account by its
  \<^verbatim>\<open>balance_total().as_double()\<close>).
\<close>

record cache =
  cache_bars :: "bartype \<Rightarrow> bar list"
  cache_bar :: "bartype \<Rightarrow> bar option"
  positions_open :: "position list"
  accounts :: "real list"

text \<open>
  The environment of one call: the cache, the Johansen procedure of statsmodels
  (\<^verbatim>\<open>coint_johansen(pd.DataFrame(data), det_order=0, k_ar_diff=1).evec[:, 0]\<close>, which
  raises or gives the leading eigenvector), the value of the attribute
  \<^verbatim>\<open>self.instrument1.maquantity\<close> (None when the object has no such attribute, as
  for None and for an Instrument of nautilus_trader, which declares none of that name),
  and numpy's \<^verbatim>\<open>np.mean(a)\<close> and \<^verbatim>\<open>np.std(a, ddof=1)\<close> (None for nan; neither raises).
  The two statistics are float64 computations: their results are what numpy answers,
  not the mean and deviation over the reals, from which they differ by rounding.
\<close>

record env =
  cache :: cache
  coint_johansen :: "(instrument_id \<times> real list) list \<Rightarrow> py_error + real list"
  instrument1_maquantity :: "real option"
  np_mean :: "real list \<Rightarrow> real option"
  np_std_ddof1 :: "real list \<Rightarrow> real option"

text \<open>\<^verbatim>\<open>collections.deque(maxlen=...)\<close>\<close>

record deque =
  items :: "real list"
  maxlen :: nat

datatype cell = BarCell "bar option" | Num real

text \<open>
  The strategy object. \<open>error_log\<close>, \<open>market_orders\<close> and \<open>closed_positions\<close> record the
  calls \<^verbatim>\<open>self.log.error\<close>, \<^verbatim>\<open>self.order_factory.market\<close> and
  \<^verbatim>\<open>self.close_position\<close> in the order they are made.
\<close>

record strategy =
  config :: config
  spread :: deque
  betas :: "instrument_id \<rightharpoonup> real"
  calc_pd :: "cell list list"
  error_log :: "py_error list"
  market_orders :: "(instrument_id \<times> order_side \<times> real) list"
  closed_positions :: "position list"

section \<open>Library operations\<close>

text \<open>\<^verbatim>\<open>d.append(x)\<close> on a bounded deque: the oldest items are discarded.\<close>

definition deque_append :: "deque \<Rightarrow> real \<Rightarrow> deque" where
  "deque_append d x =
     (let ys = items d @ [x] in d\<lparr>items := drop (length ys - maxlen d) ys\<rparr>)"

text \<open>The Python slice \<^verbatim>\<open>xs[i:]\<close>, a negative \<open>i\<close> counting from the end.\<close>

definition py_slice_from :: "int \<Rightarrow> 'a list \<Rightarrow> 'a list" where
  "py_slice_from i xs =
     (let n = int (length xs);
          start = (if i < 0 then max 0 (n + i) else min i n)
      in drop (nat start) xs)"


section \<open>The strategy\<close>

subsection \<open>Construction\<close>

text \<open>\<^verbatim>\<open>__init__\<close>: \<^verbatim>\<open>deque(maxlen=n)\<close> raises ValueError for a negative \<open>n\<close>; nothing
  else is checked.\<close>

definition init :: "config \<Rightarrow> py_error + strategy" where
  "init cfg =
     (if formation_window cfg < 0 then Inl ValueError
      else Inr \<lparr>config = cfg,
                spread = \<lparr>items = [], maxlen = nat (formation_window cfg)\<rparr>,
                betas = [instrument_id_1 cfg \<mapsto> 1, instrument_id_2 cfg \<mapsto> - 1],
                calc_pd = [],
                error_log = [],
                market_orders = [],
                closed_positions = []\<rparr>)"

subsection \<open>Queries on the cache\<close>

fun enough_bars :: "cache \<Rightarrow> int \<Rightarrow> bartype list \<Rightarrow> bool" where
  "enough_bars c w [] = True"
| "enough_bars c w (bt # bts) =
     (if int (length (cache_bars c bt)) < w then False else enough_bars c w bts)"

definition has_enough_bars :: "env \<Rightarrow> strategy \<Rightarrow> bool" where
  "has_enough_bars e s =
     enough_bars (cache e) (formation_window (config s)) (map snd (bar_type (config s)))"

definition has_open_positions :: "env \<Rightarrow> bool" where
  "has_open_positions e = (length (positions_open (cache e)) > 0)"

definition get_current_equity :: "env \<Rightarrow> py_error + real" where
  "get_current_equity e =
     (case accounts (cache e) of [] \<Rightarrow> Inl IndexError | acc # _ \<Rightarrow> Inr acc)"

subsection \<open>Hedge ratios\<close>

text \<open>The dictionary \<open>data\<close> built before the \<^verbatim>\<open>try\<close>: per instrument, the closes of
  \<^verbatim>\<open>cache.bars(bar_type)[-formation_window:]\<close>.\<close>

definition price_data :: "env \<Rightarrow> strategy \<Rightarrow> (instrument_id \<times> real list) list" where
  "price_data e s =
     map (\<lambda>(iid, bt).
            (iid, map close (py_slice_from (- formation_window (config s))
                               (cache_bars (cache e) bt))))
         (bar_type (config s))"

text \<open>The loop \<^verbatim>\<open>for i, instrument_id in enumerate(df_prices.columns)\<close>: the entries
  are written one by one, and \<^verbatim>\<open>betas_array[i]\<close> raises IndexError past the end of
  the array, after the earlier entries were written.\<close>

fun assign_betas ::
  "(instrument_id \<rightharpoonup> real) \<Rightarrow> instrument_id list \<Rightarrow> real list
     \<Rightarrow> (instrument_id \<rightharpoonup> real) \<times> py_error option" where
  "assign_betas b [] arr = (b, None)"
| "assign_betas b (k # ks) [] = (b, Some IndexError)"
| "assign_betas b (k # ks) (x # arr) = assign_betas (b(k \<mapsto> x)) ks arr"

definition log_error :: "strategy \<Rightarrow> py_error \<Rightarrow> strategy" where
  "log_error s err = s\<lparr>error_log := error_log s @ [err]\<rparr>"

text \<open>\<^verbatim>\<open>_update_betas\<close>: every exception of the \<^verbatim>\<open>try\<close> block is caught and logged.
  \<^verbatim>\<open>evec[-1]\<close> raises IndexError on an empty vector; \<^verbatim>\<open>-evec / last_coeff\<close> is a
  numpy division, non-finite for a zero \<open>last_coeff\<close>.\<close>

definition update_betas :: "env \<Rightarrow> strategy \<Rightarrow> strategy outcome" where
  "update_betas e s =
     (let data = price_data e s in
      case coint_johansen e data of
        Inl err \<Rightarrow> Returns (log_error s err)
      | Inr evec \<Rightarrow>
          if evec = [] then Returns (log_error s IndexError)
          else let last_coeff = last evec in
            if last_coeff = 0 then NonFinite
            else let betas_array = map (\<lambda>x. - x / last_coeff) evec in
              (case assign_betas (betas s) (map fst data) betas_array of
                 (b, None) \<Rightarrow> Returns (s\<lparr>betas := b\<rparr>)
               | (b, Some err) \<Rightarrow> Returns (log_error (s\<lparr>betas := b\<rparr>) err)))"

subsection \<open>Spread\<close>

text \<open>The loop of \<^verbatim>\<open>_update_spread\<close>; None is its early \<^verbatim>\<open>return\<close> on a missing
  latest bar. \<^verbatim>\<open>self.betas.get(instrument_id, 0.0)\<close> is the lookup with default.\<close>

fun spread_loop ::
  "cache \<Rightarrow> (instrument_id \<rightharpoonup> real) \<Rightarrow> (instrument_id \<times> bartype) list \<Rightarrow> real
     \<Rightarrow> real option" where
  "spread_loop c b [] spread_value = Some spread_value"
| "spread_loop c b ((iid, bt) # rest) spread_value =
     (case cache_bar c bt of
        None \<Rightarrow> None
      | Some latest_bar \<Rightarrow>
          spread_loop c b rest
            (spread_value + (case b iid of None \<Rightarrow> 0 | Some v \<Rightarrow> v) * close latest_bar))"

definition update_spread :: "env \<Rightarrow> strategy \<Rightarrow> strategy" where
  "update_spread e s =
     (case spread_loop (cache e) (betas s) (bar_type (config s)) 0 of
        None \<Rightarrow> s
      | Some spread_value \<Rightarrow> s\<lparr>spread := deque_append (spread s) spread_value\<rparr>)"

subsection \<open>Orders\<close>

text \<open>Line 138, the local \<open>quantity\<close>: a Python float division, which raises on zero.\<close>

definition leg_quantity :: "real \<Rightarrow> real \<Rightarrow> real \<Rightarrow> int \<Rightarrow> py_error + real" where
  "leg_quantity price capital_to_risk beta long_short_ratio =
     (if capital_to_risk / 2 = 0 then Inl ZeroDivisionError
      else Inr ((price / (capital_to_risk / 2)) * beta * of_int long_short_ratio))"

text \<open>Line 139.\<close>

definition leg_order_side :: "real \<Rightarrow> order_side" where
  "leg_order_side beta = (if beta > 0 then BUY else SELL)"

text \<open>The loop of \<^verbatim>\<open>open_positions\<close>. The local \<open>quantity\<close> is computed and not used:
  the order is made with \<^verbatim>\<open>abs(self.instrument1.maquantity)\<close>.\<close>

fun open_positions_loop ::
  "env \<Rightarrow> real \<Rightarrow> int \<Rightarrow> (instrument_id \<times> bartype) list \<Rightarrow> strategy
     \<Rightarrow> strategy outcome" where
  "open_positions_loop e capital_to_risk lsr [] s = Returns s"
| "open_positions_loop e capital_to_risk lsr ((iid, bt) # rest) s =
     (case betas s iid of
        None \<Rightarrow> Raises KeyError s
      | Some beta \<Rightarrow>
          (case cache_bar (cache e) bt of
             None \<Rightarrow> Raises AttributeError s
           | Some b \<Rightarrow>
               (case leg_quantity (close b) capital_to_risk beta lsr of
                  Inl err \<Rightarrow> Raises err s
                | Inr quantity \<Rightarrow>
                    (let order_side = leg_order_side beta in
                     case instrument1_maquantity e of
                       None \<Rightarrow> Raises AttributeError s
                     | Some q \<Rightarrow>
                         open_positions_loop e capital_to_risk lsr rest
                           (s\<lparr>market_orders :=
                                market_orders s @ [(iid, order_side, \<bar>q\<bar>)]\<rparr>)))))"

definition open_positions :: "env \<Rightarrow> strategy \<Rightarrow> order_side \<Rightarrow> strategy outcome" where
  "open_positions e s orderside =
     (let long_short_ratio = (if orderside = BUY then 1 else - 1) in
      case get_current_equity e of
        Inl err \<Rightarrow> Raises err s
      | Inr current_equity \<Rightarrow>
          (let capital_to_risk = capital_to_risk_ratio (config s) * current_equity in
           open_positions_loop e capital_to_risk long_short_ratio
             (bar_type (config s)) s))"

definition close_all_positions :: "env \<Rightarrow> strategy \<Rightarrow> strategy" where
  "close_all_positions e s =
     s\<lparr>closed_positions := closed_positions s @ positions_open (cache e)\<rparr>"

subsection \<open>Bar processing\<close>

text \<open>Lines 72 to 80 of \<^verbatim>\<open>on_bar\<close> choose which operation is called.\<close>

datatype signal = HOLD | EXIT | ENTER order_side

definition on_bar_signal :: "config \<Rightarrow> bool \<Rightarrow> real \<Rightarrow> signal" where
  "on_bar_signal cfg open_now z_score =
     (if open_now then
        (if \<bar>z_score\<bar> < exit_zscore_threshold cfg then EXIT else HOLD)
      else
        (if z_score > zscore_threshold cfg then ENTER SELL
         else if z_score < - zscore_threshold cfg then ENTER BUY
         else HOLD))"

definition dispatch :: "env \<Rightarrow> strategy \<Rightarrow> signal \<Rightarrow> strategy outcome" where
  "dispatch e s sg =
     (case sg of
        HOLD \<Rightarrow> Returns s
      | EXIT \<Rightarrow> Returns (close_all_positions e s)
      | ENTER orderside \<Rightarrow> open_positions e s orderside)"

text \<open>Lines 82 to 91: the row written to \<open>calc_pd\<close>. A dictionary subscript raises
  KeyError on a missing key.\<close>

definition append_row :: "env \<Rightarrow> strategy \<Rightarrow> real \<Rightarrow> real \<Rightarrow> strategy outcome" where
  "append_row e s spread_last z_score =
     (let cfg = config s in
      case map_of (bar_type cfg) (instrument_id_1 cfg) of
        None \<Rightarrow> Raises KeyError s
      | Some bt1 \<Rightarrow>
          (case map_of (bar_type cfg) (instrument_id_2 cfg) of
             None \<Rightarrow> Raises KeyError s
           | Some bt2 \<Rightarrow>
               (case betas s (instrument_id_1 cfg) of
                  None \<Rightarrow> Raises KeyError s
                | Some b1 \<Rightarrow>
                    Returns (s\<lparr>calc_pd := calc_pd s @
                      [[BarCell (cache_bar (cache e) bt1),
                        BarCell (cache_bar (cache e) bt2),
                        Num b1,
                        Num b1,
                        Num spread_last,
                        Num z_score]]\<rparr>))))"

text \<open>Lines 62 to 91 of \<^verbatim>\<open>on_bar\<close>, run on the strategy after the spread update.
  Mean and deviation are asked of numpy first; \<^verbatim>\<open>std_spread == 0\<close> is false of nan;
  \<^verbatim>\<open>spread_array[-1]\<close> raises IndexError on an empty window (a formation window
  of 0).\<close>

definition on_bar_signals :: "env \<Rightarrow> strategy \<Rightarrow> strategy outcome" where
  "on_bar_signals e s2 =
     (let spread_array = items (spread s2) in
      if int (length spread_array) < formation_window (config s2) then Returns s2
      else
        let mean_spread = np_mean e spread_array;
            std_spread = np_std_ddof1 e spread_array
        in
          if std_spread = Some 0 then Returns s2
          else if spread_array = [] then Raises IndexError s2
          else
            (case mean_spread of
               None \<Rightarrow> NonFinite
             | Some m \<Rightarrow>
                 (case std_spread of
                    None \<Rightarrow> NonFinite
                  | Some sd \<Rightarrow>
                      (let z_score = (last spread_array - m) / sd in
                       case dispatch e s2
                              (on_bar_signal (config s2) (has_open_positions e) z_score) of
                         NonFinite \<Rightarrow> NonFinite
                       | Raises err s3 \<Rightarrow> Raises err s3
                       | Returns s3 \<Rightarrow> append_row e s3 (last spread_array) z_score))))"

text \<open>\<^verbatim>\<open>on_bar\<close>: lines 57 to 60, then the rest.\<close>

definition on_bar :: "env \<Rightarrow> strategy \<Rightarrow> strategy outcome" where
  "on_bar e s =
     (if \<not> has_enough_bars e s then Returns s
      else case update_betas e s of
        NonFinite \<Rightarrow> NonFinite
      | Raises err s1 \<Rightarrow> Raises err s1
      | Returns s1 \<Rightarrow> on_bar_signals e (update_spread e s1))"

section \<open>Fixtures\<close>

text \<open>
  The mean and the sample standard deviation (divisor \<open>N - 1\<close>) over the reals. They
  stand for numpy's answers in the fixtures whose windows hold small integers, on
  which the float64 computation is exact; they are no part of the model of the
  strategy.
\<close>

definition real_mean :: "real list \<Rightarrow> real option" where
  "real_mean xs = (if xs = [] then None else Some (sum_list xs / real (length xs)))"

definition real_std_ddof1 :: "real list \<Rightarrow> real option" where
  "real_std_ddof1 xs =
     (if length xs < 2 then None
      else Some (sqrt (sum_list (map (\<lambda>x. (x - sum_list xs / real (length xs))\<^sup>2) xs)
                       / (real (length xs) - 1))))"

text \<open>A pair \<open>A\<close>, \<open>B\<close> with the given window and thresholds.\<close>

definition pair_config :: "int \<Rightarrow> real \<Rightarrow> real \<Rightarrow> config" where
  "pair_config w entry exit_thr =
     \<lparr>instrument_id_1 = ''A'', instrument_id_2 = ''B'',
      bar_type = [(''A'', ''A-1-MINUTE''), (''B'', ''B-1-MINUTE'')],
      formation_window = w,
      zscore_threshold = entry,
      exit_zscore_threshold = exit_thr,
      capital_to_risk_ratio = 1 / 100\<rparr>"

text \<open>A cache holding the given closes of the two legs (latest first), the given open
  positions and account balances.\<close>

definition pair_cache ::
  "real list \<Rightarrow> real list \<Rightarrow> position list \<Rightarrow> real list \<Rightarrow> cache" where
  "pair_cache closes_a closes_b pos accts =
     \<lparr>cache_bars =
        (\<lambda>bt. if bt = ''A-1-MINUTE'' then map (\<lambda>c. \<lparr>close = c\<rparr>) closes_a
              else if bt = ''B-1-MINUTE'' then map (\<lambda>c. \<lparr>close = c\<rparr>) closes_b
              else []),
      cache_bar =
        (\<lambda>bt. if bt = ''A-1-MINUTE''
                then map_option (\<lambda>c. \<lparr>close = c\<rparr>)
                       (case closes_a of [] \<Rightarrow> None | c # _ \<Rightarrow> Some c)
              else if bt = ''B-1-MINUTE''
                then map_option (\<lambda>c. \<lparr>close = c\<rparr>)
                       (case closes_b of [] \<Rightarrow> None | c # _ \<Rightarrow> Some c)
              else None),
      positions_open = pos,
      accounts = accts\<rparr>"

text \<open>A Johansen procedure that raises, and one that gives a fixed eigenvector.\<close>

definition failing_johansen ::
  "(instrument_id \<times> real list) list \<Rightarrow> py_error + real list" where
  "failing_johansen data = Inl LinAlgError"

definition fixed_johansen ::
  "real list \<Rightarrow> (instrument_id \<times> real list) list \<Rightarrow> py_error + real list" where
  "fixed_johansen evec data = Inr evec"

text \<open>A strategy of the pair with the given spread window and betas, nothing logged,
  ordered or recorded yet.\<close>

definition pair_strategy :: "config \<Rightarrow> real list \<Rightarrow> real \<Rightarrow> real \<Rightarrow> strategy" where
  "pair_strategy cfg spread_items beta_a beta_b =
     \<lparr>config = cfg,
      spread = \<lparr>items = spread_items, maxlen = nat (formation_window cfg)\<rparr>,
      betas = [''A'' \<mapsto> beta_a, ''B'' \<mapsto> beta_b],
      calc_pd = [], error_log = [], market_orders = [], closed_positions = []\<rparr>"

text \<open>The sizing scenario: closes 100 and 50, equity 100000, betas 1 and -2.\<close>

definition sizing_env :: "real option \<Rightarrow> env" where
  "sizing_env maq =
     \<lparr>cache = pair_cache [100] [50] [] [100000],
      coint_johansen = failing_johansen,
      instrument1_maquantity = maq,
      np_mean = real_mean,
      np_std_ddof1 = real_std_ddof1\<rparr>"

definition sizing_strategy :: strategy where
  "sizing_strategy = pair_strategy (pair_config 200 2 (1 / 2)) [] 1 (- 2)"

text \<open>An environment whose Johansen procedure fails, with the given closes (latest first)
  and open positions.\<close>

definition window_env :: "real list \<Rightarrow> real list \<Rightarrow> position list \<Rightarrow> env" where
  "window_env closes_a closes_b pos =
     \<lparr>cache = pair_cache closes_a closes_b pos [100000],
      coint_johansen = failing_johansen,
      instrument1_maquantity = None,
      np_mean = real_mean,
      np_std_ddof1 = real_std_ddof1\<rparr>"

text \<open>An environment whose Johansen procedure gives the eigenvector \<open>evec\<close>.\<close>

definition estimating_env :: "real list \<Rightarrow> env" where
  "estimating_env evec =
     \<lparr>cache = pair_cache [2, 2, 2] [4, 3, 2] [] [100000],
      coint_johansen = fixed_johansen evec,
      instrument1_maquantity = None,
      np_mean = real_mean,
      np_std_ddof1 = real_std_ddof1\<rparr>"



section \<open>Construction\<close>




section \<open>Order sizing\<close>

text \<open>The sizing scenario: equity 100000 at ratio 0.01 (capital to risk 1000), betas 1 and
  -2, latest closes 100 and 50.\<close>

lemma leg_quantity_scenario: "leg_quantity 100 1000 1 1 = Inr (1 / 5)" "leg_quantity 50 1000 (- 2) 1 = Inr (- (1 / 5))"
  by (simp_all add: leg_quantity_def)

lemma equity_scenario: "get_current_equity (sizing_env maq) = Inr 100000"
  by (simp add: get_current_equity_def sizing_env_def pair_cache_def)

lemma open_positions_no_attribute: "open_positions (sizing_env None) sizing_strategy BUY = Raises AttributeError sizing_strategy"
  by (simp add: open_positions_def get_current_equity_def sizing_strategy_def pair_strategy_def pair_config_def
      sizing_env_def pair_cache_def leg_quantity_def)

lemma open_positions_with_attribute: "open_positions (sizing_env (Some 7)) sizing_strategy BUY
   = Returns (sizing_strategy\<lparr>market_orders := [(''A'', BUY, 7), (''B'', SELL, 7)]\<rparr>)"
  by (simp add: open_positions_def get_current_equity_def sizing_strategy_def pair_strategy_def pair_config_def
      sizing_env_def pair_cache_def leg_quantity_def leg_order_side_def)

lemma open_positions_loop_ignores_ratio: "open_positions_loop e c (- 1) bts s = open_positions_loop e c 1 bts s"
  by (induction e c "1::int" bts s rule: open_positions_loop.induct)
     (auto simp: leg_quantity_def split: option.splits)

lemma open_positions_ignores_side: "open_positions e s SELL = open_positions e s BUY"
  by (simp add: open_positions_def open_positions_loop_ignores_ratio split: sum.splits)

text \<open>
  C2. The claim states the quantity of a leg as \<open>(capital_to_risk / 2) / price * beta\<close>,
  5 and 20 in the scenario. The code computes \<open>price / (capital_to_risk / 2) * beta\<close>
  (times the direction), 0.2 and -0.2 in the scenario, and does not use it: the order
  is made with \<open>abs(self.instrument1.maquantity)\<close>, which raises AttributeError when
  the attribute is missing and otherwise gives both legs the same quantity.
\<close>

theorem open_positions_quantity_inverted:
  "get_current_equity (sizing_env None) = Inr 100000
   \<and> capital_to_risk_ratio (config sizing_strategy) * 100000 = 1000
   \<and> leg_quantity 100 1000 1 1 = Inr (1 / 5)
   \<and> leg_quantity 50 1000 (- 2) 1 = Inr (- (1 / 5))
   \<and> open_positions (sizing_env None) sizing_strategy BUY
       = Raises AttributeError sizing_strategy
   \<and> open_positions (sizing_env (Some 7)) sizing_strategy BUY
       = Returns (sizing_strategy\<lparr>market_orders := [(''A'', BUY, 7), (''B'', SELL, 7)]\<rparr>)"
proof -
  have "capital_to_risk_ratio (config sizing_strategy) * 100000 = 1000"
    by (simp add: sizing_strategy_def pair_strategy_def pair_config_def)
  with leg_quantity_scenario equity_scenario [of None] open_positions_no_attribute open_positions_with_attribute show ?thesis by simp
qed

theorem open_positions_quantity_inverted_witness:
  "leg_quantity 100 1000 1 1 \<noteq> Inr 5 \<and> leg_quantity 50 1000 (- 2) 1 \<noteq> Inr (- 20)
   \<and> leg_quantity 50 1000 (- 2) 1 \<noteq> Inr 20"
  using open_positions_quantity_inverted by simp

text \<open>
  C3. The claim has a short-spread entry invert the sides of a long-spread entry. In the
  code the side of a leg is BUY for a positive beta and SELL otherwise, whatever the
  direction: \<open>open_positions\<close> does the same for SELL as for BUY.
\<close>

theorem open_positions_sides_ignore_direction:
  "open_positions e s SELL = open_positions e s BUY
   \<and> leg_order_side 1 = BUY \<and> leg_order_side (- 2) = SELL
   \<and> open_positions (sizing_env (Some 7)) sizing_strategy SELL
       = Returns (sizing_strategy\<lparr>market_orders := [(''A'', BUY, 7), (''B'', SELL, 7)]\<rparr>)"
  using open_positions_with_attribute by (simp add: open_positions_ignores_side leg_order_side_def)

theorem open_positions_sides_ignore_direction_witness:
  "open_positions (sizing_env None) sizing_strategy SELL = Raises AttributeError sizing_strategy"
  using open_positions_sides_ignore_direction [of "sizing_env None" sizing_strategy] open_positions_no_attribute
  by simp

section \<open>Spread update\<close>

lemma spread_loop_sum:
  "\<forall>(iid, bt) \<in> set bts. cache_bar c bt \<noteq> None \<Longrightarrow>
   spread_loop c b bts acc =
     Some (acc + sum_list (map (\<lambda>(iid, bt). (case b iid of None \<Rightarrow> 0 | Some v \<Rightarrow> v)
                                      * close (the (cache_bar c bt))) bts))"
  by (induction bts arbitrary: acc) (auto simp: algebra_simps)

lemma spread_loop_missing_bar:
  "(iid, bt) \<in> set bts \<Longrightarrow> cache_bar c bt = None \<Longrightarrow> spread_loop c b bts acc = None"
  by (induction bts arbitrary: acc) (auto split: option.splits)

lemma update_spread_cases:
  "(if \<forall>(iid, bt) \<in> set (bar_type (config s)). cache_bar (cache e) bt \<noteq> None
    then update_spread e s =
      s\<lparr>spread := deque_append (spread s)
          (sum_list (map (\<lambda>(iid, bt). (case betas s iid of None \<Rightarrow> 0 | Some v \<Rightarrow> v)
                                    * close (the (cache_bar (cache e) bt)))
                         (bar_type (config s))))\<rparr>
    else update_spread e s = s)"
proof (cases "\<forall>(iid, bt) \<in> set (bar_type (config s)). cache_bar (cache e) bt \<noteq> None")
  case True
  from spread_loop_sum [OF True, of "betas s" 0] True show ?thesis
    by (simp add: update_spread_def)
next
  case False
  then obtain iid bt where "(iid, bt) \<in> set (bar_type (config s))"
    and "cache_bar (cache e) bt = None"
    by auto
  from spread_loop_missing_bar [OF this, of "betas s" 0] have
    "spread_loop (cache e) (betas s) (bar_type (config s)) 0 = None" .
  then show ?thesis
    by (subst if_not_P [OF False]) (simp add: update_spread_def)
qed

lemma update_spread_keeps:
  "config (update_spread e s) = config s" "betas (update_spread e s) = betas s"
  "calc_pd (update_spread e s) = calc_pd s" "market_orders (update_spread e s) = market_orders s"
  "closed_positions (update_spread e s) = closed_positions s"
  "error_log (update_spread e s) = error_log s"
  by (simp_all add: update_spread_def split: option.splits)

text \<open>
  C10. The beta lookup of the spread update is total: when every leg has a latest bar,
  the value appended is the sum over the legs of beta times close, a leg without an
  entry in \<open>betas\<close> counting with beta 0; the update has no error outcome, and it
  leaves the strategy unchanged only when a latest bar is missing.
\<close>

theorem update_spread_default_beta:
  "(if \<forall>(iid, bt) \<in> set (bar_type (config s)). cache_bar (cache e) bt \<noteq> None
    then update_spread e s =
      s\<lparr>spread := deque_append (spread s)
          (sum_list (map (\<lambda>(iid, bt). (case betas s iid of None \<Rightarrow> 0 | Some v \<Rightarrow> v)
                                    * close (the (cache_bar (cache e) bt)))
                         (bar_type (config s))))\<rparr>
    else update_spread e s = s)"
  by (rule update_spread_cases)

theorem update_spread_default_beta_witness:
  "update_spread (window_env [2, 2, 2] [4, 3, 2] [])
     ((pair_strategy (pair_config 3 2 (1 / 2)) [] 3 (- 1))\<lparr>betas := [''A'' \<mapsto> 3]\<rparr>)
   = (pair_strategy (pair_config 3 2 (1 / 2)) [6] 3 (- 1))\<lparr>betas := [''A'' \<mapsto> 3]\<rparr>"
  using update_spread_default_beta [of
      "(pair_strategy (pair_config 3 2 (1 / 2)) [] 3 (- 1))\<lparr>betas := [''A'' \<mapsto> 3]\<rparr>"
      "window_env [2, 2, 2] [4, 3, 2] []"]
  by (simp add: window_env_def pair_cache_def pair_strategy_def pair_config_def deque_append_def)

section \<open>Hedge ratio update\<close>

lemma assign_betas_fits:
  "length ks \<le> length arr \<Longrightarrow> snd (assign_betas b ks arr) = None"
  by (induction b ks arr rule: assign_betas.induct) simp_all

lemma assign_betas_other:
  "k \<notin> set ks \<Longrightarrow> fst (assign_betas b ks arr) k = b k"
  by (induction b ks arr rule: assign_betas.induct) simp_all

lemma assign_betas_nth:
  "length ks \<le> length arr \<Longrightarrow> distinct ks \<Longrightarrow> i < length ks \<Longrightarrow>
   fst (assign_betas b ks arr) (ks ! i) = Some (arr ! i)"
proof (induction b ks arr arbitrary: i rule: assign_betas.induct)
  case (3 b k ks x arr)
  show ?case
  proof (cases i)
    case 0
    with "3.prems" show ?thesis by (simp add: assign_betas_other)
  next
    case (Suc j)
    from "3.prems" Suc have "fst (assign_betas (b(k \<mapsto> x)) ks arr) (ks ! j) = Some (arr ! j)"
      by (intro "3.IH") simp_all
    with Suc show ?thesis by simp
  qed
qed simp_all

lemma assign_betas_dom:
  "assign_betas b ks arr = (b', r) \<Longrightarrow> dom b \<subseteq> dom b' \<and> dom b' \<subseteq> dom b \<union> set ks"
  by (induction b ks arr rule: assign_betas.induct) auto

lemma update_betas_failure:
  "coint_johansen e (price_data e s) = Inl err \<Longrightarrow>
   update_betas e s = Returns (s\<lparr>error_log := error_log s @ [err]\<rparr>)"
  by (simp add: update_betas_def log_error_def)

lemma update_betas_never_raises: "update_betas e s \<noteq> Raises err s'"
  by (auto simp: update_betas_def Let_def split: sum.splits prod.splits option.splits)

lemma keys_price_data: "map fst (price_data e s) = map fst (bar_type (config s))"
  by (simp add: price_data_def case_prod_unfold comp_def)

lemma update_betas_logged_keeps:
  assumes "\<forall>evec. coint_johansen e (price_data e s) = Inr evec
             \<longrightarrow> length (bar_type (config s)) \<le> length evec"
    and "update_betas e s = Returns s'" and "error_log s' \<noteq> error_log s"
  shows "betas s' = betas s"
proof (cases "coint_johansen e (price_data e s)")
  case (Inl err)
  with assms(2) show ?thesis by (auto simp: update_betas_def log_error_def)
next
  case (Inr evec)
  with assms(1) have
    len: "length (map fst (price_data e s)) \<le> length (map (\<lambda>x. - x / last evec) evec)"
    by (simp add: keys_price_data)
  show ?thesis
  proof (cases "evec = []")
    case True
    with Inr assms(2) show ?thesis by (auto simp: update_betas_def log_error_def)
  next
    case False
    obtain b r where ab: "assign_betas (betas s) (map fst (price_data e s))
        (map (\<lambda>x. - x / last evec) evec) = (b, r)"
      by fastforce
    with assign_betas_fits [OF len, of "betas s"] have "r = None" by simp
    with ab False Inr assms(2,3) show ?thesis
      by (auto simp: update_betas_def Let_def split: if_splits)
  qed
qed

lemma update_betas_keeps:
  "update_betas e s = Returns s' \<Longrightarrow>
     config s' = config s \<and> spread s' = spread s \<and> calc_pd s' = calc_pd s
     \<and> market_orders s' = market_orders s \<and> closed_positions s' = closed_positions s"
  by (auto simp: update_betas_def Let_def log_error_def
           split: sum.splits prod.splits option.splits if_splits)

lemma update_betas_dom:
  assumes "update_betas e s = Returns s'"
  shows "dom (betas s) \<subseteq> dom (betas s')
     \<and> dom (betas s') \<subseteq> dom (betas s) \<union> fst ` set (bar_type (config s))"
proof (cases "coint_johansen e (price_data e s)")
  case (Inl err)
  with assms show ?thesis by (auto simp: update_betas_def log_error_def)
next
  case (Inr evec)
  show ?thesis
  proof (cases "evec = []")
    case True
    with Inr assms show ?thesis by (auto simp: update_betas_def log_error_def)
  next
    case False
    obtain b r where ab: "assign_betas (betas s) (map fst (price_data e s))
        (map (\<lambda>x. - x / last evec) evec) = (b, r)"
      by fastforce
    with False Inr assms have "betas s' = b"
      by (cases r) (auto simp: update_betas_def Let_def log_error_def split: if_splits)
    with assign_betas_dom [OF ab] show ?thesis
      by (simp add: keys_price_data)
  qed
qed

lemma update_betas_success:
  assumes j: "coint_johansen e (price_data e s) = Inr evec"
    and len: "length evec = length (bar_type (config s))"
    and ne: "evec \<noteq> []" and nz: "last evec \<noteq> 0"
  shows "update_betas e s =
    Returns (s\<lparr>betas := fst (assign_betas (betas s) (map fst (bar_type (config s)))
                              (map (\<lambda>x. - x / last evec) evec))\<rparr>)"
proof -
  have "length (map fst (bar_type (config s))) \<le> length (map (\<lambda>x. - x / last evec) evec)"
    using len by simp
  from assign_betas_fits [OF this, of "betas s"]
  obtain b where ab: "assign_betas (betas s) (map fst (bar_type (config s)))
      (map (\<lambda>x. - x / last evec) evec) = (b, None)"
    by (metis prod.collapse)
  from j ne nz show ?thesis
    by (simp add: update_betas_def Let_def keys_price_data ab [simplified])
qed

lemma update_betas_normalises:
  assumes "coint_johansen e (price_data e s) = Inr evec
        \<and> length evec = length (bar_type (config s)) \<and> evec \<noteq> [] \<and> last evec \<noteq> 0
        \<and> distinct (map fst (bar_type (config s)))"
  shows "\<exists>s'. update_betas e s = Returns s'
         \<and> (\<forall>i < length evec.
               betas s' (fst (bar_type (config s) ! i)) = Some (evec ! i / (- last evec)))
         \<and> betas s' (fst (last (bar_type (config s)))) = Some (- 1)
         \<and> (\<forall>k. k \<notin> fst ` set (bar_type (config s)) \<longrightarrow> betas s' k = betas s k)
         \<and> error_log s' = error_log s"
proof -
  from assms have h: "coint_johansen e (price_data e s) = Inr evec
        \<and> length evec = length (bar_type (config s)) \<and> evec \<noteq> [] \<and> last evec \<noteq> 0
        \<and> distinct (map fst (bar_type (config s)))" by simp
  let ?ks = "map fst (bar_type (config s))"
  let ?arr = "map (\<lambda>x. - x / last evec) evec"
  let ?b = "fst (assign_betas (betas s) ?ks ?arr)"
  from h have len: "length evec = length (bar_type (config s))" and ne: "evec \<noteq> []"
    and nz: "last evec \<noteq> 0" and d: "distinct ?ks"
    by simp_all
  from h have r: "update_betas e s = Returns (s\<lparr>betas := ?b\<rparr>)"
    by (intro update_betas_success) simp_all
  have le: "length ?ks \<le> length ?arr" using len by simp
  have nth: "?b (fst (bar_type (config s) ! i)) = Some (evec ! i / (- last evec))"
    if "i < length evec" for i
  proof -
    from that len have i: "i < length ?ks" by simp
    from assign_betas_nth [OF le d i, of "betas s"] that i show ?thesis by simp
  qed
  have bne: "bar_type (config s) \<noteq> []" using len ne by auto
  have lastb: "?b (fst (last (bar_type (config s)))) = Some (- 1)"
  proof -
    from ne have i: "length evec - 1 < length evec" by (cases evec) simp_all
    have e1: "fst (last (bar_type (config s))) = fst (bar_type (config s) ! (length evec - 1))"
      using bne len by (metis last_conv_nth)
    have e2: "evec ! (length evec - 1) = last evec"
      using ne by (metis last_conv_nth)
    have e3: "last evec / (- last evec) = - 1"
      using nz by simp
    from nth [OF i] show ?thesis unfolding e1 e2 e3 .
  qed
  have other: "?b k = betas s k" if "k \<notin> fst ` set (bar_type (config s))" for k
    using that by (intro assign_betas_other) simp
  let ?s' = "s\<lparr>betas := ?b\<rparr>"
  have 2: "\<forall>i < length evec.
      betas ?s' (fst (bar_type (config s) ! i)) = Some (evec ! i / (- last evec))"
  proof (intro allI impI)
    fix i assume "i < length evec"
    from nth [OF this] show
      "betas ?s' (fst (bar_type (config s) ! i)) = Some (evec ! i / (- last evec))"
      by simp
  qed
  have 3: "betas ?s' (fst (last (bar_type (config s)))) = Some (- 1)"
    using lastb by simp
  have 4: "\<forall>k. k \<notin> fst ` set (bar_type (config s)) \<longrightarrow> betas ?s' k = betas s k"
  proof (intro allI impI)
    fix k assume "k \<notin> fst ` set (bar_type (config s))"
    from other [OF this] show "betas ?s' k = betas s k"
      by simp
  qed
  have 5: "error_log ?s' = error_log s"
    by simp
  from r 2 3 4 5
  show ?thesis
    by (intro exI [of _ ?s'] conjI)
qed

lemma init_betas:
  "0 \<le> formation_window cfg \<Longrightarrow> \<exists>s0. init cfg = Inr s0
         \<and> betas s0 = [instrument_id_1 cfg \<mapsto> 1, instrument_id_2 cfg \<mapsto> - 1]
         \<and> dom (betas s0) = {instrument_id_1 cfg, instrument_id_2 cfg}"
  by (auto simp: init_def)

text \<open>
  C6. When the Johansen computation raises, \<open>_update_betas\<close> returns normally with the
  error logged and every entry of \<open>betas\<close> as it was, and \<open>on_bar\<close> goes on with the
  spread update; \<open>_update_betas\<close> never raises; and, the eigenvector having a component
  for every column, whenever it has logged an error the betas are unchanged.
\<close>

theorem update_betas_failure_keeps_betas:
  "(coint_johansen e (price_data e s) = Inl err \<longrightarrow>
      update_betas e s = Returns (s\<lparr>error_log := error_log s @ [err]\<rparr>)
      \<and> (has_enough_bars e s \<longrightarrow>
           on_bar e s = on_bar_signals e
             (update_spread e (s\<lparr>error_log := error_log s @ [err]\<rparr>))))
   \<and> update_betas e s \<noteq> Raises err' s'
   \<and> ((\<forall>evec. coint_johansen e (price_data e s) = Inr evec
             \<longrightarrow> length (bar_type (config s)) \<le> length evec)
        \<and> update_betas e s = Returns s'' \<and> error_log s'' \<noteq> error_log s
        \<longrightarrow> betas s'' = betas s)"
proof (intro conjI impI)
  assume "coint_johansen e (price_data e s) = Inl err"
  then show r: "update_betas e s = Returns (s\<lparr>error_log := error_log s @ [err]\<rparr>)"
    by (rule update_betas_failure)
  assume "has_enough_bars e s"
  with r show "on_bar e s = on_bar_signals e
      (update_spread e (s\<lparr>error_log := error_log s @ [err]\<rparr>))"
    by (simp add: on_bar_def)
next
  show "update_betas e s \<noteq> Raises err' s'" by (rule update_betas_never_raises)
next
  assume "(\<forall>evec. coint_johansen e (price_data e s) = Inr evec
             \<longrightarrow> length (bar_type (config s)) \<le> length evec)
        \<and> update_betas e s = Returns s'' \<and> error_log s'' \<noteq> error_log s"
  then show "betas s'' = betas s"
    using update_betas_logged_keeps [of e s s''] by blast
qed

theorem update_betas_failure_keeps_betas_witness:
  "update_betas (window_env [2, 2, 2] [4, 3, 2] [])
      (pair_strategy (pair_config 3 2 (1 / 2)) [5, - 2, 0] 3 (- 1))
   = Returns ((pair_strategy (pair_config 3 2 (1 / 2)) [5, - 2, 0] 3 (- 1))
        \<lparr>error_log := [LinAlgError]\<rparr>)"
proof -
  have j: "coint_johansen (window_env [2, 2, 2] [4, 3, 2] [])
      (price_data (window_env [2, 2, 2] [4, 3, 2] [])
         (pair_strategy (pair_config 3 2 (1 / 2)) [5, - 2, 0] 3 (- 1))) = Inl LinAlgError"
    by (simp add: window_env_def failing_johansen_def)
  have l: "error_log (pair_strategy (pair_config 3 2 (1 / 2)) [5, - 2, 0] 3 (- 1)) = []"
    by (simp add: pair_strategy_def)
  from update_betas_failure_keeps_betas [of "window_env [2, 2, 2] [4, 3, 2] []"
      "pair_strategy (pair_config 3 2 (1 / 2)) [5, - 2, 0] 3 (- 1)" LinAlgError] j
  have "update_betas (window_env [2, 2, 2] [4, 3, 2] [])
      (pair_strategy (pair_config 3 2 (1 / 2)) [5, - 2, 0] 3 (- 1))
   = Returns ((pair_strategy (pair_config 3 2 (1 / 2)) [5, - 2, 0] 3 (- 1))
        \<lparr>error_log := error_log (pair_strategy (pair_config 3 2 (1 / 2)) [5, - 2, 0] 3 (- 1))
            @ [LinAlgError]\<rparr>)"
    by blast
  then show ?thesis by (simp only: l append_Nil)
qed

section \<open>Bar processing\<close>

lemma open_positions_loop_keeps:
  "open_positions_loop e c l bts s = Returns s' \<or> open_positions_loop e c l bts s = Raises err s'
   \<Longrightarrow> betas s' = betas s \<and> config s' = config s \<and> calc_pd s' = calc_pd s
       \<and> spread s' = spread s"
  by (induction e c l bts s rule: open_positions_loop.induct)
     (auto split: option.splits sum.splits)

lemma dispatch_keeps:
  "dispatch e s sg = Returns s' \<or> dispatch e s sg = Raises err s'
   \<Longrightarrow> betas s' = betas s \<and> config s' = config s \<and> calc_pd s' = calc_pd s
       \<and> spread s' = spread s"
  using open_positions_loop_keeps [of e _ _ "bar_type (config s)" s s' err]
  by (cases sg)
     (auto simp: dispatch_def close_all_positions_def open_positions_def Let_def
           split: sum.splits)

lemma append_row_keeps:
  "append_row e s x z = Returns s' \<or> append_row e s x z = Raises err s'
   \<Longrightarrow> betas s' = betas s \<and> config s' = config s"
  by (auto simp: append_row_def Let_def split: option.splits)

lemma on_bar_signals_keeps:
  assumes "on_bar_signals e s = Returns s' \<or> on_bar_signals e s = Raises err s'"
  shows "betas s' = betas s"
  using assms dispatch_keeps [of e s _ _ err] append_row_keeps [of e _ _ _ s' err]
  by (auto simp: on_bar_signals_def Let_def split: option.splits if_splits outcome.splits)

lemma on_bar_dom:
  assumes "on_bar e s = Returns s' \<or> on_bar e s = Raises err s'"
  shows "dom (betas s) \<subseteq> dom (betas s')
     \<and> dom (betas s') \<subseteq> dom (betas s) \<union> fst ` set (bar_type (config s))"
proof (cases "has_enough_bars e s")
  case False
  with assms show ?thesis by (auto simp: on_bar_def)
next
  case True
  show ?thesis
  proof (cases "update_betas e s")
    case (Returns s1)
    with True assms have "on_bar_signals e (update_spread e s1) = Returns s'
        \<or> on_bar_signals e (update_spread e s1) = Raises err s'"
      by (simp add: on_bar_def)
    from on_bar_signals_keeps [OF this] have "betas s' = betas s1"
      by (simp add: update_spread_keeps)
    with update_betas_dom [OF Returns] show ?thesis by simp
  next
    case (Raises err1 s1)
    then show ?thesis by (simp add: update_betas_never_raises)
  next
    case NonFinite
    with True assms show ?thesis by (simp add: on_bar_def)
  qed
qed

lemma enough_bars_iff:
  "enough_bars c w bts \<longleftrightarrow> (\<forall>bt \<in> set bts. w \<le> int (length (cache_bars c bt)))"
  by (induction bts) auto

lemma on_bar_short_window:
  assumes "has_enough_bars e s" and "update_betas e s = Returns s1"
    and "int (length (items (spread (update_spread e s1)))) < formation_window (config s)"
  shows "on_bar e s = Returns (update_spread e s1)"
  using assms update_betas_keeps [OF assms(2)]
  by (simp add: on_bar_def on_bar_signals_def update_spread_keeps)



lemma on_bar_keeps_dom:
  "(on_bar e s = Returns s2 \<or> on_bar e s = Raises err s2)
        \<and> fst ` set (bar_type (config s)) \<subseteq> dom (betas s)
   \<Longrightarrow> dom (betas s2) = dom (betas s)"
  using on_bar_dom [of e s s2 err] by blast

text \<open>
  C7. The betas start as 1 for the first and -1 for the second instrument. After a
  successful re-estimation (an eigenvector with one component per leg and a nonzero
  last component) each leg's beta is its component divided by the negated last
  component, so the last leg's beta is -1, and no other entry changes. A bar never
  changes the set of keys when the legs of \<open>bar_type\<close> already have their entries, as
  they have from construction on for a configuration whose legs are its two instruments.
\<close>

theorem betas_normalised:
  "(0 \<le> formation_window cfg \<longrightarrow>
      (\<exists>s0. init cfg = Inr s0
         \<and> betas s0 = [instrument_id_1 cfg \<mapsto> 1, instrument_id_2 cfg \<mapsto> - 1]
         \<and> dom (betas s0) = {instrument_id_1 cfg, instrument_id_2 cfg}))
   \<and> (coint_johansen e (price_data e s) = Inr evec
        \<and> length evec = length (bar_type (config s)) \<and> evec \<noteq> [] \<and> last evec \<noteq> 0
        \<and> distinct (map fst (bar_type (config s))) \<longrightarrow>
      (\<exists>s'. update_betas e s = Returns s'
         \<and> (\<forall>i < length evec.
               betas s' (fst (bar_type (config s) ! i)) = Some (evec ! i / (- last evec)))
         \<and> betas s' (fst (last (bar_type (config s)))) = Some (- 1)
         \<and> (\<forall>k. k \<notin> fst ` set (bar_type (config s)) \<longrightarrow> betas s' k = betas s k)
         \<and> error_log s' = error_log s))
   \<and> ((on_bar e s = Returns s2 \<or> on_bar e s = Raises err s2)
        \<and> fst ` set (bar_type (config s)) \<subseteq> dom (betas s)
        \<longrightarrow> dom (betas s2) = dom (betas s))"
proof (intro conjI impI)
  assume "0 \<le> formation_window cfg"
  then show "\<exists>s0. init cfg = Inr s0
         \<and> betas s0 = [instrument_id_1 cfg \<mapsto> 1, instrument_id_2 cfg \<mapsto> - 1]
         \<and> dom (betas s0) = {instrument_id_1 cfg, instrument_id_2 cfg}"
    by (rule init_betas)
next
  assume "coint_johansen e (price_data e s) = Inr evec
        \<and> length evec = length (bar_type (config s)) \<and> evec \<noteq> [] \<and> last evec \<noteq> 0
        \<and> distinct (map fst (bar_type (config s)))"
  then show "\<exists>s'. update_betas e s = Returns s'
         \<and> (\<forall>i < length evec.
               betas s' (fst (bar_type (config s) ! i)) = Some (evec ! i / (- last evec)))
         \<and> betas s' (fst (last (bar_type (config s)))) = Some (- 1)
         \<and> (\<forall>k. k \<notin> fst ` set (bar_type (config s)) \<longrightarrow> betas s' k = betas s k)
         \<and> error_log s' = error_log s"
    by (rule update_betas_normalises)
next
  assume "(on_bar e s = Returns s2 \<or> on_bar e s = Raises err s2)
        \<and> fst ` set (bar_type (config s)) \<subseteq> dom (betas s)"
  then show "dom (betas s2) = dom (betas s)"
    by (rule on_bar_keeps_dom)
qed

theorem betas_normalised_witness:
  "\<exists>s'. update_betas (estimating_env [1 / 2, - (1 / 4)])
            (pair_strategy (pair_config 3 2 (1 / 2)) [5, - 2, 0] 3 (- 1)) = Returns s'
        \<and> betas s' ''A'' = Some 2 \<and> betas s' ''B'' = Some (- 1)"
proof -
  let ?E = "estimating_env [1 / 2, - (1 / 4)]"
  let ?S = "pair_strategy (pair_config 3 2 (1 / 2)) [5, - 2, 0] 3 (- 1)"
  let ?v = "[1 / 2, - (1 / 4) :: real]"
  have bt: "bar_type (config ?S) = [(''A'', ''A-1-MINUTE''), (''B'', ''B-1-MINUTE'')]"
    by (simp add: pair_strategy_def pair_config_def)
  have h: "coint_johansen ?E (price_data ?E ?S) = Inr ?v
      \<and> length ?v = length (bar_type (config ?S)) \<and> ?v \<noteq> [] \<and> last ?v \<noteq> 0
      \<and> distinct (map fst (bar_type (config ?S)))"
    by (simp add: bt estimating_env_def fixed_johansen_def)
  note q = betas_normalised [of _ ?E ?S ?v, THEN conjunct2, THEN conjunct1, THEN mp, OF h]
  then obtain s' where r: "update_betas ?E ?S = Returns s'"
    and a: "\<forall>i < length ?v. betas s' (fst (bar_type (config ?S) ! i)) = Some (?v ! i / (- last ?v))"
    by blast
  from a [THEN spec, of 0] have "betas s' ''A'' = Some 2" by (simp add: bt)
  moreover from a [THEN spec, of 1] have "betas s' ''B'' = Some (- 1)" by (simp add: bt)
  ultimately show ?thesis using r by blast
qed

text \<open>Evaluation in an environment whose Johansen procedure fails.\<close>

lemma window_env_update_betas:
  "update_betas (window_env ca cb p) s = Returns (s\<lparr>error_log := error_log s @ [LinAlgError]\<rparr>)"
  by (rule update_betas_failure) (simp add: window_env_def failing_johansen_def)

lemma window_env_update_spread:
  "update_spread (window_env (a # ca) (b # cb) p)
     ((pair_strategy (pair_config w en ex) xs ba bb)\<lparr>error_log := l\<rparr>)
   = (pair_strategy (pair_config w en ex)
        (drop (Suc (length xs) - nat w) (xs @ [ba * a + bb * b])) ba bb)\<lparr>error_log := l\<rparr>"
  by (simp add: update_spread_def window_env_def pair_cache_def pair_strategy_def
      pair_config_def deque_append_def)

lemma window_env_has_enough:
  "has_enough_bars (window_env ca cb p) (pair_strategy (pair_config w en ex) xs ba bb)
   \<longleftrightarrow> w \<le> int (length ca) \<and> w \<le> int (length cb)"
  by (auto simp: has_enough_bars_def window_env_def pair_cache_def pair_strategy_def
      pair_config_def)

lemma pair_strategy_fields:
  "error_log (pair_strategy cfg xs ba bb) = []"
  "config (pair_strategy cfg xs ba bb) = cfg"
  "items (spread (pair_strategy cfg xs ba bb)) = xs"
  "formation_window (pair_config w en ex) = w"
  by (simp_all add: pair_strategy_def pair_config_def)

lemma row_has_enough:
  "has_enough_bars (window_env [2, 2, 2] [4, 3, 2] []) (pair_strategy (pair_config 3 2 (1 / 2)) [5, - 2, 0] 3 (- 1))"
  by (simp add: has_enough_bars_def window_env_def pair_cache_def pair_strategy_def pair_config_def)

lemma row_update_betas:
  "update_betas (window_env [2, 2, 2] [4, 3, 2] []) (pair_strategy (pair_config 3 2 (1 / 2)) [5, - 2, 0] 3 (- 1))
   = Returns ((pair_strategy (pair_config 3 2 (1 / 2)) [5, - 2, 0] 3 (- 1))\<lparr>error_log := [LinAlgError]\<rparr>)"
  by (simp add: update_betas_def window_env_def failing_johansen_def log_error_def pair_strategy_def)

lemma row_update_spread:
  "update_spread (window_env [2, 2, 2] [4, 3, 2] [])
     ((pair_strategy (pair_config 3 2 (1 / 2)) [5, - 2, 0] 3 (- 1))\<lparr>error_log := [LinAlgError]\<rparr>)
   = (pair_strategy (pair_config 3 2 (1 / 2)) [- 2, 0, 2] 3 (- 1))\<lparr>error_log := [LinAlgError]\<rparr>"
  by (simp add: update_spread_def window_env_def pair_cache_def pair_strategy_def pair_config_def
      deque_append_def)

lemma row_stats:
  "real_mean [- 2, 0, 2] = Some 0" "real_std_ddof1 [- 2, 0, 2] = Some 2"
  by (simp_all add: real_mean_def real_std_ddof1_def)

lemma row_signals:
  "on_bar_signals (window_env [2, 2, 2] [4, 3, 2] [])
     ((pair_strategy (pair_config 3 2 (1 / 2)) [- 2, 0, 2] 3 (- 1))\<lparr>error_log := [LinAlgError]\<rparr>)
   = Returns ((pair_strategy (pair_config 3 2 (1 / 2)) [- 2, 0, 2] 3 (- 1))
       \<lparr>calc_pd := [[BarCell (Some \<lparr>close = 2\<rparr>), BarCell (Some \<lparr>close = 4\<rparr>),
                     Num 3, Num 3, Num 2, Num 1]],
        error_log := [LinAlgError]\<rparr>)"
  by (simp add: on_bar_signals_def row_stats pair_strategy_def pair_config_def
      on_bar_signal_def has_open_positions_def window_env_def pair_cache_def dispatch_def
      append_row_def)

lemma row_on_bar:
  "on_bar (window_env [2, 2, 2] [4, 3, 2] []) (pair_strategy (pair_config 3 2 (1 / 2)) [5, - 2, 0] 3 (- 1))
   = Returns ((pair_strategy (pair_config 3 2 (1 / 2)) [- 2, 0, 2] 3 (- 1))
       \<lparr>calc_pd := [[BarCell (Some \<lparr>close = 2\<rparr>), BarCell (Some \<lparr>close = 4\<rparr>),
                     Num 3, Num 3, Num 2, Num 1]],
        error_log := [LinAlgError]\<rparr>)"
  by (simp add: on_bar_def row_has_enough row_update_betas row_update_spread row_signals)

text \<open>
  C8. A bar with fewer than \<open>formation_window\<close> bars in the cache for some leg leaves
  the strategy as it is (no beta update, no spread value, no order, no row); and a bar
  after whose update the spread window holds fewer than \<open>formation_window\<close> values
  returns with no order, no closed position and no row.
\<close>

theorem on_bar_skips_short_history:
  "(has_enough_bars e s \<longleftrightarrow>
      (\<forall>(iid, bt) \<in> set (bar_type (config s)).
          formation_window (config s) \<le> int (length (cache_bars (cache e) bt))))
   \<and> (\<not> has_enough_bars e s \<longrightarrow> on_bar e s = Returns s)
   \<and> (has_enough_bars e s \<and> update_betas e s = Returns s1
        \<and> int (length (items (spread (update_spread e s1)))) < formation_window (config s)
      \<longrightarrow> on_bar e s = Returns (update_spread e s1)
          \<and> market_orders (update_spread e s1) = market_orders s
          \<and> closed_positions (update_spread e s1) = closed_positions s
          \<and> calc_pd (update_spread e s1) = calc_pd s)"
proof (intro conjI impI)
  show "has_enough_bars e s \<longleftrightarrow>
      (\<forall>(iid, bt) \<in> set (bar_type (config s)).
          formation_window (config s) \<le> int (length (cache_bars (cache e) bt)))"
    by (auto simp: has_enough_bars_def enough_bars_iff)
next
  assume "\<not> has_enough_bars e s"
  then show "on_bar e s = Returns s" by (simp add: on_bar_def)
next
  assume h: "has_enough_bars e s \<and> update_betas e s = Returns s1
        \<and> int (length (items (spread (update_spread e s1)))) < formation_window (config s)"
  then show "on_bar e s = Returns (update_spread e s1)"
    by (intro on_bar_short_window) simp_all
  from h have "update_betas e s = Returns s1" by simp
  from update_betas_keeps [OF this]
  show "market_orders (update_spread e s1) = market_orders s"
    and "closed_positions (update_spread e s1) = closed_positions s"
    and "calc_pd (update_spread e s1) = calc_pd s"
    by (simp_all add: update_spread_keeps)
qed

theorem on_bar_skips_short_history_witness:
  "on_bar (window_env [2, 2] [4, 3] []) (pair_strategy (pair_config 3 2 (1 / 2)) [] 3 (- 1))
     = Returns (pair_strategy (pair_config 3 2 (1 / 2)) [] 3 (- 1))
   \<and> on_bar (window_env [2, 2, 2] [4, 3, 2] []) (pair_strategy (pair_config 3 2 (1 / 2)) [] 3 (- 1))
     = Returns ((pair_strategy (pair_config 3 2 (1 / 2)) [2] 3 (- 1))\<lparr>error_log := [LinAlgError]\<rparr>)"
proof -
  let ?S = "pair_strategy (pair_config 3 2 (1 / 2)) [] 3 (- 1)"
  let ?S1 = "?S\<lparr>error_log := [LinAlgError]\<rparr>"
  let ?E2 = "window_env [2, 2] [4, 3] []"
  let ?E3 = "window_env [2, 2, 2] [4, 3, 2] []"
  have 1: "\<not> has_enough_bars ?E2 ?S"
    by (simp add: window_env_has_enough)
  have u: "update_spread ?E3 ?S1
      = (pair_strategy (pair_config 3 2 (1 / 2)) [2] 3 (- 1))\<lparr>error_log := [LinAlgError]\<rparr>"
    using window_env_update_spread [where a = 2 and ca = "[2, 2]" and b = 4 and cb = "[3, 2]"
        and p = "[]" and w = 3 and en = 2 and ex = "1 / 2" and xs = "[]" and ba = 3
        and bb = "- 1" and l = "[LinAlgError]"]
    by simp
  have 2: "has_enough_bars ?E3 ?S \<and> update_betas ?E3 ?S = Returns ?S1
      \<and> int (length (items (spread (update_spread ?E3 ?S1)))) < formation_window (config ?S)"
    by (simp add: window_env_has_enough window_env_update_betas u pair_strategy_fields)
  note t = on_bar_skips_short_history [of ?E2 ?S ?S1, THEN conjunct2, THEN conjunct1, THEN mp, OF 1]
  note t' = on_bar_skips_short_history [of ?E3 ?S ?S1, THEN conjunct2, THEN conjunct2, THEN mp,
      OF 2, THEN conjunct1]
  from t t' show ?thesis by (simp only: u)
qed

subsection \<open>The decision of a bar\<close>

lemma open_positions_raises_without_attribute:
  assumes "instrument1_maquantity e = None" and "bar_type (config s) \<noteq> []"
  shows "\<exists>err. open_positions e s side = Raises err s"
proof -
  from assms(2) obtain iid bt rest where bts: "bar_type (config s) = (iid, bt) # rest"
    by (cases "bar_type (config s)") auto
  have "\<exists>err. open_positions_loop e c l ((iid, bt) # rest) s = Raises err s" for c l
    using assms(1) by (simp split: option.splits sum.splits)
  then show ?thesis
    by (simp add: open_positions_def Let_def bts split: sum.splits)
qed

lemma on_bar_with_z_score:
  assumes "has_enough_bars e s" and "update_betas e s = Returns s1"
    and "\<not> int (length (items (spread (update_spread e s1)))) < formation_window (config s)"
    and "items (spread (update_spread e s1)) \<noteq> []"
    and "np_mean e (items (spread (update_spread e s1))) = Some m"
    and "np_std_ddof1 e (items (spread (update_spread e s1))) = Some sd"
    and "sd \<noteq> 0"
  shows "on_bar e s =
    (case dispatch e (update_spread e s1)
            (on_bar_signal (config s) (has_open_positions e)
               ((last (items (spread (update_spread e s1))) - m) / sd)) of
       NonFinite \<Rightarrow> NonFinite
     | Raises err s3 \<Rightarrow> Raises err s3
     | Returns s3 \<Rightarrow>
         append_row e s3 (last (items (spread (update_spread e s1))))
           ((last (items (spread (update_spread e s1))) - m) / sd))"
  using assms update_betas_keeps [OF assms(2)]
  by (simp add: on_bar_def on_bar_signals_def update_spread_keeps Let_def)

lemma enter_stats:
  "real_mean [0, 0, 0, 0, 0, 0, 0, 0, 9] = Some 1"
  "real_std_ddof1 [0, 0, 0, 0, 0, 0, 0, 0, 9] = Some 3"
proof -
  have "sqrt 9 = 3" using real_sqrt_abs [of 3] by simp
  then show "real_std_ddof1 [0, 0, 0, 0, 0, 0, 0, 0, 9] = Some 3"
    by (simp add: real_std_ddof1_def)
qed (simp add: real_mean_def)

lemma exit_stats:
  "real_mean [- 2, 2, 0] = Some 0" "real_std_ddof1 [- 2, 2, 0] = Some 2"
  by (simp_all add: real_mean_def real_std_ddof1_def)

lemma window_env_numpy:
  "np_mean (window_env ca cb p) = real_mean"
  "np_std_ddof1 (window_env ca cb p) = real_std_ddof1"
  "has_open_positions (window_env ca cb p) \<longleftrightarrow> p \<noteq> []"
  "instrument1_maquantity (window_env ca cb p) = None"
  "positions_open (cache (window_env ca cb p)) = p"
  by (simp_all add: window_env_def has_open_positions_def pair_cache_def)

text \<open>
  C1. For a bar with a z-score (full window, numpy deviation neither 0 nor nan) the
  claim has \<open>on_bar\<close> decide in the priority order and make the entry or exit. The code
  decides in that order: with a position open and \<open>|z|\<close> below the exit threshold every
  open position is closed and the row written; flat, \<open>open_positions(SELL)\<close> is called
  for \<open>z\<close> above and \<open>open_positions(BUY)\<close> for \<open>z\<close> below the negated entry threshold;
  otherwise only the row is written. But the call makes no entry: with the Instrument
  of nautilus_trader it raises (line 140) before any order, so the bar ends in an
  exception with no order and no row, and no position is opened. In the scenario
  (thresholds 2.0 and 0.5) the strategy is therefore still flat at the z-scores 1.9 and
  0.3, where a flat strategy holds: the fourth signal is HOLD, not EXIT.
\<close>

theorem on_bar_signal_priority:
  "(has_open_positions e \<longleftrightarrow> positions_open (cache e) \<noteq> [])
   \<and> (has_enough_bars e s \<and> update_betas e s = Returns s1 \<and> s2 = update_spread e s1
        \<and> arr = items (spread s2)
        \<and> \<not> int (length arr) < formation_window (config s) \<and> arr \<noteq> []
        \<and> np_mean e arr = Some m \<and> np_std_ddof1 e arr = Some sd \<and> sd \<noteq> 0
        \<and> z = (last arr - m) / sd
      \<longrightarrow>
        (has_open_positions e \<and> \<bar>z\<bar> < exit_zscore_threshold (config s) \<longrightarrow>
           on_bar e s =
             append_row e
               (s2\<lparr>closed_positions := closed_positions s2 @ positions_open (cache e)\<rparr>)
               (last arr) z)
      \<and> (has_open_positions e \<and> \<not> \<bar>z\<bar> < exit_zscore_threshold (config s) \<longrightarrow>
           on_bar e s = append_row e s2 (last arr) z)
      \<and> (\<not> has_open_positions e \<and> z > zscore_threshold (config s) \<longrightarrow>
           on_bar e s =
             (case open_positions e s2 SELL of
                Returns s3 \<Rightarrow> append_row e s3 (last arr) z
              | Raises err s3 \<Rightarrow> Raises err s3
              | NonFinite \<Rightarrow> NonFinite))
      \<and> (\<not> has_open_positions e \<and> \<not> z > zscore_threshold (config s)
            \<and> z < - zscore_threshold (config s) \<longrightarrow>
           on_bar e s =
             (case open_positions e s2 BUY of
                Returns s3 \<Rightarrow> append_row e s3 (last arr) z
              | Raises err s3 \<Rightarrow> Raises err s3
              | NonFinite \<Rightarrow> NonFinite))
      \<and> (\<not> has_open_positions e \<and> \<not> z > zscore_threshold (config s)
            \<and> \<not> z < - zscore_threshold (config s) \<longrightarrow>
           on_bar e s = append_row e s2 (last arr) z)
      \<and> (\<not> has_open_positions e
            \<and> (z > zscore_threshold (config s) \<or> z < - zscore_threshold (config s))
            \<and> instrument1_maquantity e = None \<and> bar_type (config s) \<noteq> [] \<longrightarrow>
           (\<exists>err. on_bar e s = Raises err s2)))"
proof (intro conjI impI)
  show "has_open_positions e \<longleftrightarrow> positions_open (cache e) \<noteq> []"
    by (simp add: has_open_positions_def)
next
  assume h: "has_enough_bars e s \<and> update_betas e s = Returns s1 \<and> s2 = update_spread e s1
        \<and> arr = items (spread s2)
        \<and> \<not> int (length arr) < formation_window (config s) \<and> arr \<noteq> []
        \<and> np_mean e arr = Some m \<and> np_std_ddof1 e arr = Some sd \<and> sd \<noteq> 0
        \<and> z = (last arr - m) / sd"
  then have p: "has_enough_bars e s" "update_betas e s = Returns s1"
    "\<not> int (length (items (spread (update_spread e s1)))) < formation_window (config s)"
    "items (spread (update_spread e s1)) \<noteq> []"
    "np_mean e (items (spread (update_spread e s1))) = Some m"
    "np_std_ddof1 e (items (spread (update_spread e s1))) = Some sd"
    "sd \<noteq> 0"
    by auto
  from h have eqs: "s2 = update_spread e s1"
    "arr = items (spread (update_spread e s1))"
    "z = (last (items (spread (update_spread e s1))) - m) / sd"
    by auto
  have ob: "on_bar e s =
      (case dispatch e s2 (on_bar_signal (config s) (has_open_positions e) z) of
         NonFinite \<Rightarrow> NonFinite
       | Raises err s3 \<Rightarrow> Raises err s3
       | Returns s3 \<Rightarrow> append_row e s3 (last arr) z)"
    unfolding eqs by (rule on_bar_with_z_score [OF p])
  from h have cfg: "config s2 = config s"
    using update_betas_keeps [of e s s1] by (simp add: update_spread_keeps)
  {
    assume "has_open_positions e \<and> \<bar>z\<bar> < exit_zscore_threshold (config s)"
    then show "on_bar e s =
             append_row e
               (s2\<lparr>closed_positions := closed_positions s2 @ positions_open (cache e)\<rparr>)
               (last arr) z"
      by (simp add: ob on_bar_signal_def dispatch_def close_all_positions_def)
  }
  {
    assume "has_open_positions e \<and> \<not> \<bar>z\<bar> < exit_zscore_threshold (config s)"
    then show "on_bar e s = append_row e s2 (last arr) z"
      by (simp add: ob on_bar_signal_def dispatch_def)
  }
  {
    assume "\<not> has_open_positions e \<and> z > zscore_threshold (config s)"
    then show "on_bar e s =
             (case open_positions e s2 SELL of
                Returns s3 \<Rightarrow> append_row e s3 (last arr) z
              | Raises err s3 \<Rightarrow> Raises err s3
              | NonFinite \<Rightarrow> NonFinite)"
      by (simp add: ob on_bar_signal_def dispatch_def)
  }
  {
    assume "\<not> has_open_positions e \<and> \<not> z > zscore_threshold (config s)
            \<and> z < - zscore_threshold (config s)"
    then show "on_bar e s =
             (case open_positions e s2 BUY of
                Returns s3 \<Rightarrow> append_row e s3 (last arr) z
              | Raises err s3 \<Rightarrow> Raises err s3
              | NonFinite \<Rightarrow> NonFinite)"
      by (simp add: ob on_bar_signal_def dispatch_def)
  }
  {
    assume "\<not> has_open_positions e \<and> \<not> z > zscore_threshold (config s)
            \<and> \<not> z < - zscore_threshold (config s)"
    then show "on_bar e s = append_row e s2 (last arr) z"
      by (simp add: ob on_bar_signal_def dispatch_def)
  }
  {
    assume a: "\<not> has_open_positions e
            \<and> (z > zscore_threshold (config s) \<or> z < - zscore_threshold (config s))
            \<and> instrument1_maquantity e = None \<and> bar_type (config s) \<noteq> []"
    then have "instrument1_maquantity e = None" and "bar_type (config s2) \<noteq> []"
      by (simp_all add: cfg)
    from open_positions_raises_without_attribute [OF this]
    obtain e1 e2 where "open_positions e s2 SELL = Raises e1 s2"
      and "open_positions e s2 BUY = Raises e2 s2"
      by blast
    with a show "\<exists>err. on_bar e s = Raises err s2"
      by (auto simp: ob on_bar_signal_def dispatch_def)
  }
qed

theorem on_bar_signal_priority_witness:
  "on_bar (window_env [12, 12, 12, 12, 12, 12, 12, 12, 12] [3, 3, 3, 3, 3, 3, 3, 3, 3] [])
      (pair_strategy (pair_config 9 2 (1 / 2)) [7, 0, 0, 0, 0, 0, 0, 0, 0] 1 (- 1))
     = Raises AttributeError
         ((pair_strategy (pair_config 9 2 (1 / 2)) [0, 0, 0, 0, 0, 0, 0, 0, 9] 1 (- 1))
            \<lparr>error_log := [LinAlgError]\<rparr>)
   \<and> on_bar (window_env [2, 2, 2] [2, 2, 2] [''P1''])
      (pair_strategy (pair_config 3 2 (1 / 2)) [5, - 2, 2] 1 (- 1))
     = Returns
         ((pair_strategy (pair_config 3 2 (1 / 2)) [- 2, 2, 0] 1 (- 1))
            \<lparr>calc_pd := [[BarCell (Some \<lparr>close = 2\<rparr>), BarCell (Some \<lparr>close = 2\<rparr>),
                          Num 1, Num 1, Num 0, Num 0]],
             error_log := [LinAlgError],
             closed_positions := [''P1'']\<rparr>)
   \<and> on_bar_signal (pair_config 9 2 (1 / 2)) False (1 / 10) = HOLD
   \<and> on_bar_signal (pair_config 9 2 (1 / 2)) False (23 / 10) = ENTER SELL
   \<and> on_bar_signal (pair_config 9 2 (1 / 2)) False (19 / 10) = HOLD
   \<and> on_bar_signal (pair_config 9 2 (1 / 2)) False (3 / 10) = HOLD"
proof (intro conjI)
  let ?E = "window_env [12, 12, 12, 12, 12, 12, 12, 12, 12] [3, 3, 3, 3, 3, 3, 3, 3, 3] []"
  let ?S = "pair_strategy (pair_config 9 2 (1 / 2)) [7, 0, 0, 0, 0, 0, 0, 0, 0] 1 (- 1)"
  let ?S1 = "?S\<lparr>error_log := [LinAlgError]\<rparr>"
  let ?S2 = "(pair_strategy (pair_config 9 2 (1 / 2)) [0, 0, 0, 0, 0, 0, 0, 0, 9] 1 (- 1))
      \<lparr>error_log := [LinAlgError]\<rparr>"
  have u: "update_spread ?E ?S1 = ?S2"
    using window_env_update_spread [where a = 12 and ca = "[12, 12, 12, 12, 12, 12, 12, 12]"
        and b = 3 and cb = "[3, 3, 3, 3, 3, 3, 3, 3]" and p = "[]" and w = 9 and en = 2
        and ex = "1 / 2" and xs = "[7, 0, 0, 0, 0, 0, 0, 0, 0]" and ba = 1 and bb = "- 1"
        and l = "[LinAlgError]"]
    by simp
  have arr: "items (spread ?S2) = [0, 0, 0, 0, 0, 0, 0, 0, 9]"
    by (simp add: pair_strategy_def)
  have h: "has_enough_bars ?E ?S \<and> update_betas ?E ?S = Returns ?S1 \<and> ?S2 = update_spread ?E ?S1
      \<and> [0, 0, 0, 0, 0, 0, 0, 0, 9] = items (spread ?S2)
      \<and> \<not> int (length [0, 0, 0, 0, 0, 0, 0, 0, 9 :: real]) < formation_window (config ?S)
      \<and> [0, 0, 0, 0, 0, 0, 0, 0, 9 :: real] \<noteq> []
      \<and> np_mean ?E [0, 0, 0, 0, 0, 0, 0, 0, 9] = Some 1
      \<and> np_std_ddof1 ?E [0, 0, 0, 0, 0, 0, 0, 0, 9] = Some 3 \<and> (3 :: real) \<noteq> 0
      \<and> (8 / 3 :: real) = (last [0, 0, 0, 0, 0, 0, 0, 0, 9] - 1) / 3"
    by (simp add: window_env_has_enough window_env_update_betas u arr pair_strategy_fields
        window_env_numpy enter_stats)
  have c: "\<not> has_open_positions ?E \<and> (8 / 3 :: real) > zscore_threshold (config ?S)"
    by (simp add: window_env_numpy pair_strategy_fields pair_config_def)
  have o: "open_positions ?E ?S2 SELL = Raises AttributeError ?S2"
    by (simp add: open_positions_def get_current_equity_def window_env_def pair_cache_def
        pair_strategy_def pair_config_def leg_quantity_def)
  note t = on_bar_signal_priority [of ?E ?S ?S1 ?S2 "[0, 0, 0, 0, 0, 0, 0, 0, 9]" 1 3 "8 / 3",
      THEN conjunct2, THEN mp, OF h, THEN conjunct2, THEN conjunct2, THEN conjunct1, THEN mp,
      OF c]
  show "on_bar ?E ?S = Raises AttributeError ?S2"
    by (simp only: t o outcome.case)
next
  let ?E = "window_env [2, 2, 2] [2, 2, 2] [''P1'']"
  let ?S = "pair_strategy (pair_config 3 2 (1 / 2)) [5, - 2, 2] 1 (- 1)"
  let ?S1 = "?S\<lparr>error_log := [LinAlgError]\<rparr>"
  let ?S2 = "(pair_strategy (pair_config 3 2 (1 / 2)) [- 2, 2, 0] 1 (- 1))
      \<lparr>error_log := [LinAlgError]\<rparr>"
  have u: "update_spread ?E ?S1 = ?S2"
    using window_env_update_spread [where a = 2 and ca = "[2, 2]"
        and b = 2 and cb = "[2, 2]" and p = "[''P1'']" and w = 3 and en = 2
        and ex = "1 / 2" and xs = "[5, - 2, 2]" and ba = 1 and bb = "- 1"
        and l = "[LinAlgError]"]
    by simp
  have arr: "items (spread ?S2) = [- 2, 2, 0]"
    by (simp add: pair_strategy_def)
  have h: "has_enough_bars ?E ?S \<and> update_betas ?E ?S = Returns ?S1 \<and> ?S2 = update_spread ?E ?S1
      \<and> [- 2, 2, 0] = items (spread ?S2)
      \<and> \<not> int (length [- 2, 2, 0 :: real]) < formation_window (config ?S)
      \<and> [- 2, 2, 0 :: real] \<noteq> []
      \<and> np_mean ?E [- 2, 2, 0] = Some 0
      \<and> np_std_ddof1 ?E [- 2, 2, 0] = Some 2 \<and> (2 :: real) \<noteq> 0
      \<and> (0 :: real) = (last [- 2, 2, 0] - 0) / 2"
    by (simp add: window_env_has_enough window_env_update_betas u arr pair_strategy_fields
        window_env_numpy exit_stats)
  have c: "has_open_positions ?E \<and> \<bar>0 :: real\<bar> < exit_zscore_threshold (config ?S)"
    by (simp add: window_env_numpy pair_strategy_fields pair_config_def)
  note t = on_bar_signal_priority [of ?E ?S ?S1 ?S2 "[- 2, 2, 0]" 0 2 0,
      THEN conjunct2, THEN mp, OF h, THEN conjunct1, THEN mp, OF c]
  have r: "append_row ?E (?S2\<lparr>closed_positions :=
        closed_positions ?S2 @ positions_open (cache ?E)\<rparr>) (last [- 2, 2, 0]) 0
     = Returns
         ((pair_strategy (pair_config 3 2 (1 / 2)) [- 2, 2, 0] 1 (- 1))
            \<lparr>calc_pd := [[BarCell (Some \<lparr>close = 2\<rparr>), BarCell (Some \<lparr>close = 2\<rparr>),
                          Num 1, Num 1, Num 0, Num 0]],
             error_log := [LinAlgError],
             closed_positions := [''P1'']\<rparr>)"
    by (simp add: append_row_def window_env_def pair_cache_def pair_strategy_def
        pair_config_def)
  show "on_bar ?E ?S = Returns
         ((pair_strategy (pair_config 3 2 (1 / 2)) [- 2, 2, 0] 1 (- 1))
            \<lparr>calc_pd := [[BarCell (Some \<lparr>close = 2\<rparr>), BarCell (Some \<lparr>close = 2\<rparr>),
                          Num 1, Num 1, Num 0, Num 0]],
             error_log := [LinAlgError],
             closed_positions := [''P1'']\<rparr>)"
    by (simp only: t r)
next
  show "on_bar_signal (pair_config 9 2 (1 / 2)) False (1 / 10) = HOLD"
    by (simp add: on_bar_signal_def pair_config_def)
next
  show "on_bar_signal (pair_config 9 2 (1 / 2)) False (23 / 10) = ENTER SELL"
    by (simp add: on_bar_signal_def pair_config_def)
next
  show "on_bar_signal (pair_config 9 2 (1 / 2)) False (19 / 10) = HOLD"
    by (simp add: on_bar_signal_def pair_config_def)
next
  show "on_bar_signal (pair_config 9 2 (1 / 2)) False (3 / 10) = HOLD"
    by (simp add: on_bar_signal_def pair_config_def)
qed

subsection \<open>Degenerate spread\<close>










text \<open>
  C9. The claim has the row hold the two prices, the two betas, the spread and the
  z-score. The row of the code holds the two bars as the cache returns them and the
  beta of the first instrument twice: with betas 3 and -1 the third and the fourth
  column are both 3.
\<close>

theorem on_bar_row_repeats_first_beta:
  "on_bar (window_env [2, 2, 2] [4, 3, 2] [])
      (pair_strategy (pair_config 3 2 (1 / 2)) [5, - 2, 0] 3 (- 1))
   = Returns ((pair_strategy (pair_config 3 2 (1 / 2)) [- 2, 0, 2] 3 (- 1))
       \<lparr>calc_pd := [[BarCell (Some \<lparr>close = 2\<rparr>), BarCell (Some \<lparr>close = 4\<rparr>),
                     Num 3, Num 3, Num 2, Num 1]],
        error_log := [LinAlgError]\<rparr>)"
  by (rule row_on_bar)

theorem on_bar_row_repeats_first_beta_witness:
  "\<exists>s'. on_bar (window_env [2, 2, 2] [4, 3, 2] [])
            (pair_strategy (pair_config 3 2 (1 / 2)) [5, - 2, 0] 3 (- 1)) = Returns s'
     \<and> betas s' ''A'' = Some 3 \<and> betas s' ''B'' = Some (- 1)
     \<and> calc_pd s' ! 0 ! 2 = Num 3 \<and> calc_pd s' ! 0 ! 3 = Num 3"
  by (subst on_bar_row_repeats_first_beta) (simp add: pair_strategy_def)

end
